theory Spec2Isabelle
  imports
    Complex_Main
    "HOL-Library.AList"
    "HOL-Library.Char_ord"
    "HOL-Library.List_Lexorder"
begin

section \<open>Data model\<close>

text \<open>
  The package \<^verbatim>\<open>tagops\<close> converts Go struct values into \<^verbatim>\<open>map[string]any\<close> by
  reflection. The embedding keeps what reflection observes of a value: its kind, its
  payload, and for a struct the declared fields with their metadata.
\<close>

subsection \<open>Errors\<close>

text \<open>
  \<^verbatim>\<open>errSkip\<close> is the package's only error value. A Go panic that leaves a function is
  \<open>Panic\<close>; the error value that the deferred \<^verbatim>\<open>recover\<close> of \<^verbatim>\<open>MapValues\<close> builds from
  a panic is \<open>Recovered\<close>.
\<close>

datatype error = ErrSkip | Panic string | Recovered string

subsection \<open>Mapper\<close>

record Mapper =
  Tag :: string
  Omitempty :: bool
  Flatten :: bool

subsection \<open>Values as reflection sees them\<close>

datatype int_kind = KInt | KInt8 | KInt16 | KInt32 | KInt64
datatype uint_kind = KUint | KUint8 | KUint16 | KUint32 | KUint64 | KUintptr
datatype float_kind = KFloat32 | KFloat64
datatype complex_kind = KComplex64 | KComplex128
datatype ref_kind = KChan | KFunc | KUnsafePointer

datatype kind =
    Invalid | Bool | SignedInt int_kind | UnsignedInt uint_kind | Float float_kind
  | Complex complex_kind | Array | Interface | Map | Ptr | Slice | String | Struct
  | Ref ref_kind

text \<open>
  A floating-point payload. The program only compares it with zero; both signed zeros
  are \<open>Finite 0\<close>, and neither an infinity nor a NaN compares equal to zero.
\<close>

datatype gofloat = Finite real | Infinity bool | NaN

text \<open>
  \<^verbatim>\<open>time.Time\<close>, seen through its public meaning only: seconds since January 1 of year 1
  and nanoseconds within the second. \<^verbatim>\<open>IsZero\<close> is the type's own predicate.
\<close>

datatype gotime = GoTime (sec: int) (nsec: nat)

definition IsZero :: "gotime \<Rightarrow> bool" where
  "IsZero t = (sec t = 0 \<and> nsec t = 0)"

text \<open>
  \<^verbatim>\<open>reflect.StructField\<close>: the declared name, the struct tag and the embedding flag.
  The struct tag is kept parsed, as the list of its \<^verbatim>\<open>key:"value"\<close> pairs in order.
\<close>

record StructField =
  Name :: string
  STag :: "(string \<times> string) list"
  Anonymous :: bool

text \<open>
  \<open>VNil\<close> is the nil interface value (\<^verbatim>\<open>any(nil)\<close>). \<open>VIface\<close> is a value of interface
  kind, that is a field or element whose static type is an interface; \<open>VMap\<close> is a
  string-keyed map, as an association list; \<open>VTime\<close> is a \<^verbatim>\<open>time.Time\<close>; \<open>VStruct\<close> is
  any other struct, its fields in declaration order; \<open>VRef\<close> is a channel, function or
  unsafe pointer, which is nil or not.
\<close>

datatype val =
    VNil
  | VBool bool
  | VInt int_kind int
  | VUint uint_kind nat
  | VFloat float_kind gofloat
  | VComplex complex_kind gofloat gofloat
  | VString string
  | VArray "val list"
  | VSlice "val list"
  | VMap "(string \<times> val) list"
  | VTime gotime
  | VStruct "(StructField \<times> val) list"
  | VPtr "val option"
  | VIface "val option"
  | VRef ref_kind bool

fun Kind :: "val \<Rightarrow> kind" where
  "Kind VNil = Invalid"
| "Kind (VBool b) = Bool"
| "Kind (VInt k i) = SignedInt k"
| "Kind (VUint k n) = UnsignedInt k"
| "Kind (VFloat k f) = Float k"
| "Kind (VComplex k re im) = Complex k"
| "Kind (VString s) = String"
| "Kind (VArray xs) = Array"
| "Kind (VSlice xs) = Slice"
| "Kind (VMap m) = Map"
| "Kind (VTime t) = Struct"
| "Kind (VStruct fs) = Struct"
| "Kind (VPtr p) = Ptr"
| "Kind (VIface x) = Interface"
| "Kind (VRef k isnil) = Ref k"

section \<open>Library functions the package calls\<close>

subsection \<open>unicode/utf8 and unicode\<close>

text \<open>
  \<^verbatim>\<open>utf8.DecodeRuneInString\<close> returns the first rune of a string and its width in bytes:
  \<^verbatim>\<open>(RuneError, 0)\<close> for the empty string, \<^verbatim>\<open>(RuneError, 1)\<close> for an ill-formed
  encoding. Bytes and runes are natural numbers here.
\<close>

definition RuneError :: nat where
  "RuneError = 0xFFFD"

definition seq_size :: "nat \<Rightarrow> nat" where
  \<comment> \<open>the width announced by a leading byte; 0 for a byte that cannot lead\<close>
  "seq_size s0 =
     (if s0 < 0x80 then 1
      else if 0xC2 \<le> s0 \<and> s0 \<le> 0xDF then 2
      else if 0xE0 \<le> s0 \<and> s0 \<le> 0xEF then 3
      else if 0xF0 \<le> s0 \<and> s0 \<le> 0xF4 then 4
      else 0)"

definition accept_lo :: "nat \<Rightarrow> nat" where
  "accept_lo s0 = (if s0 = 0xE0 then 0xA0 else if s0 = 0xF0 then 0x90 else 0x80)"

definition accept_hi :: "nat \<Rightarrow> nat" where
  "accept_hi s0 = (if s0 = 0xED then 0x9F else if s0 = 0xF4 then 0x8F else 0xBF)"

definition decode_bytes :: "nat list \<Rightarrow> nat \<times> nat" where
  "decode_bytes bs =
     (let n = length bs in
      if n < 1 then (RuneError, 0)
      else let s0 = bs ! 0; sz = seq_size s0 in
        if sz = 1 then (s0, 1)
        else if sz = 0 then (RuneError, 1)
        else if n < sz then (RuneError, 1)
        else let s1 = bs ! 1 in
          if s1 < accept_lo s0 \<or> accept_hi s0 < s1 then (RuneError, 1)
          else if sz \<le> 2 then ((s0 mod 32) * 64 + s1 mod 64, 2)
          else let s2 = bs ! 2 in
            if s2 < 0x80 \<or> 0xBF < s2 then (RuneError, 1)
            else if sz \<le> 3 then ((s0 mod 16) * 4096 + (s1 mod 64) * 64 + s2 mod 64, 3)
            else let s3 = bs ! 3 in
              if s3 < 0x80 \<or> 0xBF < s3 then (RuneError, 1)
              else ((s0 mod 8) * 262144 + (s1 mod 64) * 4096 + (s2 mod 64) * 64
                    + s3 mod 64, 4))"

definition DecodeRuneInString :: "string \<Rightarrow> nat \<times> nat" where
  "DecodeRuneInString s = decode_bytes (map of_char s)"

text \<open>
  The range table \<^verbatim>\<open>unicode.Lu\<close> (uppercase letters) is data of the Go library. Every
  function that consults it takes it as the parameter \<open>lu\<close>, a predicate on runes.
  \<open>Lu_Latin1\<close> is the table cut down to the runes below 256, for running the model on
  concrete records.
\<close>

definition Lu_Latin1 :: "nat \<Rightarrow> bool" where
  "Lu_Latin1 r = ((0x41 \<le> r \<and> r \<le> 0x5A) \<or> (0xC0 \<le> r \<and> r \<le> 0xD6) \<or> (0xD8 \<le> r \<and> r \<le> 0xDE))"

subsection \<open>strings\<close>

text \<open>
  \<^verbatim>\<open>strings.SplitN(s, sep, n)\<close> for a non-empty separator and \<open>n \<ge> 0\<close>: at most \<open>n\<close>
  pieces, the last one the unsplit remainder.
\<close>

fun Cut :: "string \<Rightarrow> string \<Rightarrow> (string \<times> string) option" where
  "Cut [] sep = None"
| "Cut (c # cs) sep =
     (if take (length sep) (c # cs) = sep then Some ([], drop (length sep) (c # cs))
      else (case Cut cs sep of None \<Rightarrow> None | Some (before, after) \<Rightarrow> Some (c # before, after)))"

function SplitN :: "string \<Rightarrow> string \<Rightarrow> nat \<Rightarrow> string list" where
  "SplitN s sep n =
     (if n = 0 then []
      else if n = 1 then [s]
      else (case Cut s sep of None \<Rightarrow> [s] | Some (before, after) \<Rightarrow> before # SplitN after sep (n - 1)))"
  by pat_completeness auto
termination
  by (relation "measure (\<lambda>(s, sep, n). n)") auto

declare SplitN.simps [simp del]

text \<open>
  \<^verbatim>\<open>strings.EqualFold(s, "-")\<close>: equality under simple Unicode case folding. The rune
  U+002D has no other member in its folding orbit, so only the string \<^verbatim>\<open>"-"\<close> itself
  folds to \<^verbatim>\<open>"-"\<close>.
\<close>

definition EqualFold_dash :: "string \<Rightarrow> bool" where
  "EqualFold_dash s = (s = ''-'')"

text \<open>
  \<^verbatim>\<open>StructTag.Get(key)\<close>: the value of the first pair with that key, the empty string when
  there is none.
\<close>

definition Get :: "(string \<times> string) list \<Rightarrow> string \<Rightarrow> string" where
  "Get tg key = (case map_of tg key of None \<Rightarrow> [] | Some v \<Rightarrow> v)"

subsection \<open>reflect\<close>

text \<open>
  Go exports an identifier when its first rune is in \<^verbatim>\<open>Lu\<close>. \<^verbatim>\<open>Value.Field(i)\<close> of an
  unexported field is read-only, and \<^verbatim>\<open>Value.Interface()\<close> panics on a read-only value
  (\<^emph>\<open>cannot return value obtained from unexported field or method\<close>). On a value of
  interface kind, \<^verbatim>\<open>Interface()\<close> returns the dynamic value.
\<close>

definition IsExported :: "(nat \<Rightarrow> bool) \<Rightarrow> StructField \<Rightarrow> bool" where
  "IsExported lu field = lu (fst (DecodeRuneInString (Name field)))"

definition Interface_of :: "(nat \<Rightarrow> bool) \<Rightarrow> StructField \<Rightarrow> val \<Rightarrow> error + val" where
  "Interface_of lu field v =
     (if \<not> IsExported lu field
      then Inl (Panic ''reflect.Value.Interface: cannot return value obtained from unexported field or method'')
      else Inr (case v of VIface None \<Rightarrow> VNil | VIface (Some x) \<Rightarrow> x | _ \<Rightarrow> v))"

text \<open>\<^verbatim>\<open>Value.Elem()\<close> of a pointer: the pointee, the invalid value for a nil pointer.\<close>

fun Elem :: "val \<Rightarrow> val" where
  "Elem (VPtr (Some x)) = x"
| "Elem v = VNil"

section \<open>structtools.go: constants\<close>

definition tagsep :: string where
  "tagsep = '',''"

definition fOmitEmpty :: string where
  "fOmitEmpty = ''omitempty''"

section \<open>mapper.go\<close>

subsection \<open>isEmpty\<close>

text \<open>
  The \<^verbatim>\<open>switch\<close> on the kind, case by case. In the \<^verbatim>\<open>reflect.Struct\<close> case a struct
  other than \<^verbatim>\<open>time.Time\<close> leaves the \<^verbatim>\<open>switch\<close> (the word \<^verbatim>\<open>fallthrough\<close> there is a
  comment, not a statement) and reaches the final \<^verbatim>\<open>return false\<close>, as do the kinds no
  case lists. The argument is a value that may be read through \<^verbatim>\<open>Interface()\<close>, which
  is what the one caller, \<^verbatim>\<open>tagName\<close>, has checked before.
\<close>

fun isEmpty :: "val \<Rightarrow> bool" where
  "isEmpty (VInt k i) = (i = 0)"
| "isEmpty (VUint k n) = (n = 0)"
| "isEmpty (VFloat k f) = (f = Finite 0)"
| "isEmpty (VArray xs) = (length xs = 0)"
| "isEmpty (VMap m) = (length m = 0)"
| "isEmpty (VSlice xs) = (length xs = 0)"
| "isEmpty (VString s) = (length s = 0)"
| "isEmpty (VBool b) = (\<not> b)"
| "isEmpty (VComplex k re im) = (re = Finite 0 \<and> im = Finite 0)"
| "isEmpty (VTime t) = IsZero t"
| "isEmpty (VStruct fs) = False"
| "isEmpty (VIface x) = (x = None)"
| "isEmpty (VPtr p) = (p = None)"
| "isEmpty VNil = False"
| "isEmpty (VRef k isnil) = False"

subsection \<open>isExported\<close>

definition isExported :: "(nat \<Rightarrow> bool) \<Rightarrow> string \<Rightarrow> error + bool" where
  "isExported lu fieldName =
     (let firstRune = fst (DecodeRuneInString fieldName) in
      if firstRune = RuneError
      then Inl (Panic (''isExported: unsupported field: '' @ fieldName))
      else Inr (lu firstRune))"

subsection \<open>tagName\<close>

definition tagName ::
  "(nat \<Rightarrow> bool) \<Rightarrow> StructField \<Rightarrow> val \<Rightarrow> string \<Rightarrow> bool \<Rightarrow> error + string" where
  "tagName lu fld v tag omitempty =
     (case isExported lu (Name fld) of
        Inl e \<Rightarrow> Inl e
      | Inr exported \<Rightarrow>
          if \<not> exported then Inl ErrSkip
          else (case SplitN (Get (STag fld) tag) tagsep 2 of
              [] \<Rightarrow> Inr (Name fld)
            | t0 # rest \<Rightarrow>
                if EqualFold_dash t0 then Inl ErrSkip
                else let key = (if t0 = [] then Name fld else t0) in
                  if omitempty \<and> length (t0 # rest) > 1 \<and> (t0 # rest) ! 1 = fOmitEmpty \<and> isEmpty v
                  then Inl ErrSkip
                  else Inr key))"

subsection \<open>Mapper.ToMap and ToMap\<close>

text \<open>
  The result map is an association list with one entry per key; \<open>AList.update\<close> is the
  assignment \<^verbatim>\<open>out[key] = val\<close>, and \<open>map_of\<close> reads the list as a map. \<open>merge_into\<close> is
  the loop \<^verbatim>\<open>for key, val := range nested { out[key] = val }\<close>.
\<close>

definition merge_into :: "(string \<times> val) list \<Rightarrow> (string \<times> val) list \<Rightarrow> (string \<times> val) list" where
  "merge_into out nested = fold (\<lambda>(key, v) acc. AList.update key v acc) nested out"

text \<open>
  \<open>Mapper_ToMap\<close> is the method, \<open>ToMap\<close> the function of \<^verbatim>\<open>structtools.go\<close> that builds
  a Mapper and calls the method, and \<open>ToMap_fields\<close> the loop over the fields with the
  map built so far. A value that is not a struct after one pointer step makes
  \<^verbatim>\<open>NumField\<close> (or \<^verbatim>\<open>Type\<close>, for the invalid value) panic. The three fields of
  \<^verbatim>\<open>time.Time\<close> are unexported and of no struct kind, so the loop skips each and a
  \<^verbatim>\<open>time.Time\<close> at the top yields the empty map.
\<close>

function
  Mapper_ToMap :: "(nat \<Rightarrow> bool) \<Rightarrow> Mapper \<Rightarrow> val \<Rightarrow> error + (string \<times> val) list" and
  ToMap :: "(nat \<Rightarrow> bool) \<Rightarrow> val \<Rightarrow> string \<Rightarrow> bool \<Rightarrow> bool \<Rightarrow> error + (string \<times> val) list" and
  ToMap_fields ::
    "(nat \<Rightarrow> bool) \<Rightarrow> Mapper \<Rightarrow> (StructField \<times> val) list \<Rightarrow> (string \<times> val) list
      \<Rightarrow> error + (string \<times> val) list"
where
  "Mapper_ToMap lu m a =
     (let v = (if Kind a = Ptr then Elem a else a) in
      case v of
        VStruct fs \<Rightarrow> ToMap_fields lu m fs []
      | VTime t \<Rightarrow> Inr []
      | _ \<Rightarrow> Inl (Panic ''reflect: call of reflect.Value.Type or NumField on non-struct Value''))"
| "ToMap lu a tag omitempty flatten =
     Mapper_ToMap lu \<lparr>Tag = tag, Omitempty = omitempty, Flatten = flatten\<rparr> a"
| "ToMap_fields lu m [] out = Inr out"
| "ToMap_fields lu m ((field, fv) # rest) out =
     (case fv of
        VStruct sub \<Rightarrow>
          (case Interface_of lu field (VStruct sub) of
             Inl e \<Rightarrow> Inl e
           | Inr a \<Rightarrow>
              (case ToMap lu a (Tag m) (Omitempty m) (Flatten m) of
                 Inl e \<Rightarrow> Inl e
               | Inr nested \<Rightarrow>
                   if Anonymous field \<or> Flatten m
                   then ToMap_fields lu m rest (merge_into out nested)
                   else (case tagName lu field fv (Tag m) (Omitempty m) of
                       Inl ErrSkip \<Rightarrow> ToMap_fields lu m rest out
                     | Inl e \<Rightarrow> Inl e
                     | Inr key \<Rightarrow> ToMap_fields lu m rest (AList.update key (VMap nested) out))))
      | _ \<Rightarrow>
          (case tagName lu field fv (Tag m) (Omitempty m) of
             Inl ErrSkip \<Rightarrow> ToMap_fields lu m rest out
           | Inl e \<Rightarrow> Inl e
           | Inr key \<Rightarrow>
               (case Interface_of lu field fv of
                  Inl e \<Rightarrow> Inl e
                | Inr x \<Rightarrow> ToMap_fields lu m rest (AList.update key x out))))"
  by pat_completeness auto
termination
  apply (relation "measure (\<lambda>x. case x of
        Inl (lu, m, a) \<Rightarrow> 2 * size a + 2
      | Inr (Inl (lu, a, tag, omitempty, flatten)) \<Rightarrow> 2 * size a + 3
      | Inr (Inr (lu, m, fs, out)) \<Rightarrow> 2 * size (VStruct fs))")
  apply (auto simp: Interface_of_def split: if_splits)
  subgoal for a fs by (cases a rule: Elem.cases) auto
  done

subsection \<open>Keys\<close>

text \<open>The keys of the map, collected and sorted with \<^verbatim>\<open>sort.Strings\<close> (bytewise order).\<close>

definition Keys :: "(string \<times> val) list \<Rightarrow> string list" where
  "Keys m = sort (map fst m)"

subsection \<open>resize and MapValues\<close>

text \<open>
  \<^verbatim>\<open>s *[]any\<close> is \<open>None\<close> for the nil pointer and \<open>Some xs\<close> for a pointer to the slice
  \<open>xs\<close>; the result is the slice the pointer refers to afterwards. A negative size
  makes the slice expression \<^verbatim>\<open>(*s)[:sz]\<close> panic.
\<close>

definition resize :: "val list option \<Rightarrow> int \<Rightarrow> error + val list" where
  "resize s sz =
     (case s of
        None \<Rightarrow> Inl (Panic ''resize: nil slice'')
      | Some xs \<Rightarrow>
          if int (length xs) \<ge> sz
          then (if sz < 0 then Inl (Panic ''runtime error: slice bounds out of range'')
                else Inr (take (nat sz) xs))
          else Inr (xs @ replicate (nat (sz - int (length xs))) VNil))"

text \<open>The map read \<^verbatim>\<open>m[col]\<close>: the nil interface value for a key that is not there.\<close>

definition index_map :: "(string \<times> val) list \<Rightarrow> string \<Rightarrow> val" where
  "index_map m col = (case map_of m col of None \<Rightarrow> VNil | Some v \<Rightarrow> v)"

text \<open>
  The loop \<^verbatim>\<open>for i, col := range order { (*out)[i] = m[col] }\<close> from index \<open>i\<close> on. An
  index outside the slice panics; the slice written so far stays as it is.
\<close>

fun assign_loop ::
  "(string \<times> val) list \<Rightarrow> nat \<Rightarrow> string list \<Rightarrow> val list \<Rightarrow> val list \<times> error option" where
  "assign_loop m i [] out = (out, None)"
| "assign_loop m i (col # cols) out =
     (if i < length out then assign_loop m (i + 1) cols (out[i := index_map m col])
      else (out, Some (Panic ''runtime error: index out of range'')))"

text \<open>
  \<open>MapValues\<close> returns the slice behind \<open>out\<close> after the call and the error result. The
  deferred function turns every panic into the returned error.
\<close>

definition recovered :: "error \<Rightarrow> error" where
  "recovered e = (case e of Panic r \<Rightarrow> Recovered r | _ \<Rightarrow> e)"

definition MapValues ::
  "val list option \<Rightarrow> (string \<times> val) list \<Rightarrow> string list \<Rightarrow> val list option \<times> error option" where
  "MapValues out m order =
     (case out of
        None \<Rightarrow> (None, Some (Recovered ''runtime error: invalid memory address or nil pointer dereference''))
      | Some xs \<Rightarrow>
          (case (if length xs \<noteq> length order then resize out (int (length order)) else Inr xs) of
             Inl e \<Rightarrow> (Some xs, Some (recovered e))
           | Inr ys \<Rightarrow>
               (case assign_loop m 0 order ys of
                  (zs, None) \<Rightarrow> (Some zs, None)
                | (zs, Some e) \<Rightarrow> (Some zs, Some (recovered e)))))"

subsection \<open>Mapper.Tags and Mapper.Values\<close>

definition Mapper_Tags :: "(nat \<Rightarrow> bool) \<Rightarrow> Mapper \<Rightarrow> val \<Rightarrow> error + string list" where
  "Mapper_Tags lu m a =
     (case ToMap lu a (Tag m) (Omitempty m) (Flatten m) of
        Inl e \<Rightarrow> Inl e
      | Inr mp \<Rightarrow> Inr (Keys mp))"

text \<open>
  \<open>Mapper_Values\<close>: \<open>Inl (Panic _)\<close> when a panic leaves the method, \<open>Inl\<close> of the
  error that \<open>MapValues\<close> returned (with the nil slice), \<open>Inr ret\<close> otherwise.
\<close>

definition Mapper_Values :: "(nat \<Rightarrow> bool) \<Rightarrow> Mapper \<Rightarrow> val \<Rightarrow> error + val list" where
  "Mapper_Values lu m a =
     (case ToMap lu a (Tag m) False True of
        Inl e \<Rightarrow> Inl e
      | Inr mp \<Rightarrow>
          (case Mapper_Tags lu m a of
             Inl e \<Rightarrow> Inl e
           | Inr order \<Rightarrow>
               (case MapValues (Some []) mp order of
                  (_, Some err) \<Rightarrow> Inl err
                | (None, None) \<Rightarrow> Inr []
                | (Some ret, None) \<Rightarrow> Inr ret)))"

section \<open>structtools.go: Tags and Values\<close>

definition Tags :: "(nat \<Rightarrow> bool) \<Rightarrow> val \<Rightarrow> string \<Rightarrow> error + string list" where
  "Tags lu a tag = Mapper_Tags lu \<lparr>Tag = tag, Omitempty = False, Flatten = True\<rparr> a"

definition Values :: "(nat \<Rightarrow> bool) \<Rightarrow> val \<Rightarrow> string \<Rightarrow> error + val list" where
  "Values lu a tag = Mapper_Values lu \<lparr>Tag = tag, Omitempty = False, Flatten = True\<rparr> a"

section \<open>Reference definitions and sample records\<close>

text \<open>
  The emptiness definition of the specification, as the list of the values it calls
  empty: numeric zero, \<open>false\<close>, the complex zero, containers and strings of length
  zero, absent references, and the zero instant.
\<close>

definition spec_isEmpty :: "val \<Rightarrow> bool" where
  "spec_isEmpty v =
     ((\<exists>k. v = VInt k 0) \<or> (\<exists>k. v = VUint k 0) \<or> (\<exists>k. v = VFloat k (Finite 0))
      \<or> v = VBool False
      \<or> (\<exists>k. v = VComplex k (Finite 0) (Finite 0))
      \<or> v = VString [] \<or> v = VArray [] \<or> v = VSlice [] \<or> v = VMap []
      \<or> v = VPtr None \<or> v = VIface None
      \<or> (\<exists>t. v = VTime t \<and> IsZero t))"

text \<open>
  The two tokens of an annotation, in the specification's words: the text before the
  first comma, and the entire remainder after it when there is a comma.
\<close>

definition first_token :: "string \<Rightarrow> string" where
  "first_token s = takeWhile (\<lambda>c. c \<noteq> CHR '','') s"

definition second_token :: "string \<Rightarrow> string option" where
  "second_token s =
     (if CHR '','' \<in> set s then Some (tl (dropWhile (\<lambda>c. c \<noteq> CHR '','') s)) else None)"

text \<open>The records of the package's tests, with their \<^verbatim>\<open>json\<close> tags.\<close>

definition json_field :: "string \<Rightarrow> string \<Rightarrow> StructField" where
  "json_field n t = \<lparr>Name = n, STag = [(''json'', t)], Anonymous = False\<rparr>"

definition john :: val where
  "john = VStruct
     [(json_field ''Name'' ''name,omitempty'', VString ''John''),
      (json_field ''Age'' ''age,omitempty'', VInt KInt 0)]"

definition address :: val where
  "address = VStruct
     [(json_field ''Street'' ''street,omitempty'', VString ''123 Main St''),
      (json_field ''City'' ''city,omitempty'', VString ''Anytown''),
      (json_field ''ZIP'' ''zip'', VInt KInt 12345)]"

definition nestedStruct :: val where
  "nestedStruct = VStruct
     [(json_field ''Name'' ''name,omitempty'', VString ''John''),
      (json_field ''Age'' ''age,omitempty'', VInt KInt 0),
      (json_field ''Address'' ''address,omitempty'', address)]"

text \<open>
  The employee record of the package's example for anonymous fields: an embedded
  \<^verbatim>\<open>Person\<close> and a position. \<open>person\<close> is a record with a named record-typed field.
\<close>

definition embedded :: "string \<Rightarrow> StructField" where
  "embedded n = \<lparr>Name = n, STag = [], Anonymous = True\<rparr>"

definition employee_fields :: "(StructField \<times> val) list" where
  "employee_fields =
     [(embedded ''Person'', john),
      (json_field ''Position'' ''position,omitempty'', VString ''Manager'')]"

definition person :: val where
  "person = VStruct
     [(json_field ''Name'' ''name'', VString ''Bob''),
      (json_field ''Address'' ''address'', address)]"

text \<open>
  A record whose record-typed fields, at every depth, are all anonymous. \<^verbatim>\<open>time.Time\<close>
  fields are leaves and do not count.
\<close>

fun only_anonymous_nesting :: "(StructField \<times> val) list \<Rightarrow> bool" where
  "only_anonymous_nesting [] = True"
| "only_anonymous_nesting ((field, fv) # rest) =
     ((case fv of
         VStruct sub \<Rightarrow> Anonymous field \<and> only_anonymous_nesting sub
       | _ \<Rightarrow> True)
      \<and> only_anonymous_nesting rest)"

text \<open>
  The two results with which \<^verbatim>\<open>utf8.DecodeRuneInString\<close> reports that there is no first
  character to decode: the empty string and an ill-formed encoding.
\<close>

definition decode_fails :: "string \<Rightarrow> bool" where
  "decode_fails s =
     (DecodeRuneInString s = (RuneError, 0) \<or> DecodeRuneInString s = (RuneError, 1))"

section \<open>Properties\<close>

lemmas eval_defs =
  isExported_def IsExported_def DecodeRuneInString_def decode_bytes_def seq_size_def
  RuneError_def Lu_Latin1_def tagName_def SplitN.simps tagsep_def fOmitEmpty_def Get_def
  EqualFold_dash_def Interface_of_def merge_into_def json_field_def

subsection \<open>The package's tests, run on the model\<close>

text \<open>
  The cases of the package's test file, with the expected results the tests give. A map
  is listed in the order in which its keys were first written.
\<close>

lemma resize_test:
  "resize (Some [VInt KInt 1, VInt KInt 2, VInt KInt 3]) 5
     = Inr [VInt KInt 1, VInt KInt 2, VInt KInt 3, VNil, VNil]"
  "resize (Some [VInt KInt 1, VInt KInt 2, VInt KInt 3]) 2 = Inr [VInt KInt 1, VInt KInt 2]"
  "resize (Some []) 3 = Inr [VNil, VNil, VNil]"
  by (simp_all add: resize_def numeral_3_eq_3 numeral_2_eq_2)

lemma ToMap_test:
  "ToMap Lu_Latin1 (VStruct []) ''json'' True False = Inr []"
  "ToMap Lu_Latin1 john ''json'' True False = Inr [(''name'', VString ''John'')]"
  "ToMap Lu_Latin1 john ''json'' False False
     = Inr [(''name'', VString ''John''), (''age'', VInt KInt 0)]"
  "ToMap Lu_Latin1 nestedStruct ''json'' True False
     = Inr [(''name'', VString ''John''),
            (''address'', VMap [(''street'', VString ''123 Main St''), (''city'', VString ''Anytown''),
                               (''zip'', VInt KInt 12345)])]"
  "ToMap Lu_Latin1 nestedStruct ''json'' True True
     = Inr [(''name'', VString ''John''), (''street'', VString ''123 Main St''),
            (''city'', VString ''Anytown''), (''zip'', VInt KInt 12345)]"
  by (simp_all add: nestedStruct_def john_def address_def eval_defs)

lemma ToMap_anonymous_test:
  "ToMap Lu_Latin1
     (VStruct [(embedded ''Person'',
                VStruct [(json_field ''Name'' ''name,omitempty'', VString ''Bob''),
                         (json_field ''Age'' ''age,omitempty'', VInt KInt 30)]),
               (json_field ''Position'' ''position,omitempty'', VString ''Manager'')])
     ''json'' True False
   = Inr [(''name'', VString ''Bob''), (''age'', VInt KInt 30), (''position'', VString ''Manager'')]"
  by (simp add: embedded_def eval_defs)

lemma isExported_test:
  "isExported Lu_Latin1 ''Name'' = Inr True"
  "isExported Lu_Latin1 ''name'' = Inr False"
  "isExported Lu_Latin1 ''_name'' = Inr False"
  "isExported Lu_Latin1 ''_Name'' = Inr False"
  "isExported Lu_Latin1 ''_'' = Inr False"
  "isExported Lu_Latin1 [] = Inl (Panic ''isExported: unsupported field: '')"
  "isExported Lu_Latin1 [CHR 0xF0, CHR 0x9F, CHR 0xA5, CHR 0x90] = Inr False"
  by (simp_all add: eval_defs accept_lo_def accept_hi_def)

lemma Keys_test:
  "Keys [] = []"
  "Keys [(''z'', VInt KInt 26), (''a'', VInt KInt 1), (''b'', VInt KInt 2), (''c'', VInt KInt 3)]
     = [''a'', ''b'', ''c'', ''z'']"
  by (simp_all add: Keys_def)

lemma tagName_test:
  "tagName Lu_Latin1 (json_field ''Name'' ''name'') (VString []) ''json'' False = Inr ''name''"
  "tagName Lu_Latin1 (json_field ''Name'' ''name,omitempty'') (VString []) ''json'' True
     = Inl ErrSkip"
  "tagName Lu_Latin1 (json_field ''Name'' ''name,omitempty'') (VString ''John'') ''json'' True
     = Inr ''name''"
  "tagName Lu_Latin1 \<lparr>Name = ''Name'', STag = [], Anonymous = False\<rparr> (VString []) ''json'' True
     = Inr ''Name''"
  "tagName Lu_Latin1 (json_field ''Name'' ''-'') (VString []) ''json'' False = Inl ErrSkip"
  "tagName Lu_Latin1 (json_field ''Name'' []) (VString []) ''json'' False = Inr ''Name''"
  "tagName Lu_Latin1 (json_field ''Name'' '',omitempty'') (VString []) ''json'' True = Inl ErrSkip"
  "tagName Lu_Latin1 (json_field ''Name'' '',omitempty'') (VString ''John'') ''json'' True
     = Inr ''Name''"
  "tagName Lu_Latin1 (json_field ''Name'' ''-,'') (VString []) ''json'' False = Inl ErrSkip"
  "tagName Lu_Latin1 \<lparr>Name = ''name'', STag = [], Anonymous = False\<rparr> (VString []) ''json'' False
     = Inl ErrSkip"
  by (simp_all add: eval_defs)

subsection \<open>MapValues\<close>

lemma assign_loop_all:
  "i + length cols = length out \<Longrightarrow>
   assign_loop m i cols out = (take i out @ map (index_map m) cols, None)"
proof (induction cols arbitrary: i out)
  case Nil
  then show ?case by simp
next
  case (Cons col cols)
  from Cons.prems have lt: "i < length out" by simp
  have len: "(i + 1) + length cols = length (out[i := index_map m col])"
    using Cons.prems by simp
  have tk: "take (i + 1) (out[i := index_map m col]) = take i out @ [index_map m col]"
    using lt by (simp add: take_Suc_conv_app_nth)
  show ?case
    using lt Cons.IH [OF len] tk by simp
qed

lemma resize_Some:
  "resize (Some xs) (int n) =
     Inr (if n \<le> length xs then take n xs else xs @ replicate (n - length xs) VNil)"
  by (auto simp: resize_def nat_diff_distrib')

lemma MapValues_Some:
  "MapValues (Some buf) M K = (Some (map (index_map M) K), None)"
proof -
  define ys where "ys = (if length K \<le> length buf then take (length K) buf
                         else buf @ replicate (length K - length buf) VNil)"
  have len: "length ys = length K" unfolding ys_def by simp
  have r: "(if length buf \<noteq> length K then resize (Some buf) (int (length K)) else Inr buf) = Inr ys"
    unfolding ys_def by (simp add: resize_Some)
  have "assign_loop M 0 K ys = (take 0 ys @ map (index_map M) K, None)"
    by (rule assign_loop_all) (simp add: len)
  then have l: "assign_loop M 0 K ys = (map (index_map M) K, None)" by simp
  show ?thesis
    unfolding MapValues_def by (simp add: r l del: assign_loop.simps)
qed

lemma MapValues_test:
  "MapValues (Some []) [] [''a'', ''b'', ''c''] = (Some [VNil, VNil, VNil], None)"
  "MapValues (Some [VNil, VNil])
     [(''z'', VInt KInt 26), (''a'', VInt KInt 1), (''b'', VInt KInt 2), (''c'', VInt KInt 3)]
     [''z'', ''b'', ''a'', ''c'']
   = (Some [VInt KInt 26, VInt KInt 2, VInt KInt 1, VInt KInt 3], None)"
  "MapValues (Some [VNil, VNil, VNil, VNil])
     [(''z'', VInt KInt 26), (''a'', VInt KInt 1), (''b'', VInt KInt 2), (''c'', VInt KInt 3)]
     [''z'', ''b'']
   = (Some [VInt KInt 26, VInt KInt 2], None)"
  by (simp_all add: MapValues_Some index_map_def)

lemma Values_test:
  "Values Lu_Latin1 (VStruct []) ''json'' = Inr []"
  "Values Lu_Latin1 john ''json'' = Inr [VInt KInt 0, VString ''John'']"
  "Values Lu_Latin1 nestedStruct ''json''
     = Inr [VInt KInt 0, VString ''Anytown'', VString ''John'', VString ''123 Main St'',
            VInt KInt 12345]"
  by (simp_all add: Values_def Mapper_Values_def Mapper_Tags_def Keys_def MapValues_Some
      index_map_def nestedStruct_def john_def address_def eval_defs)

text \<open>
  C8. For every map \<open>M\<close>, every key sequence \<open>K\<close> and every buffer behind a non-nil
  pointer, \<open>MapValues\<close> returns no error and leaves a buffer of length \<open>length K\<close> whose
  position \<open>i\<close> holds \<open>M[K[i]]\<close> when the key is present and the nil value otherwise.
\<close>

theorem MapValues_projects:
  "MapValues (Some buf) M K =
     (Some (map (\<lambda>k. case map_of M k of None \<Rightarrow> VNil | Some v \<Rightarrow> v) K), None)"
proof -
  have "index_map M = (\<lambda>k. case map_of M k of None \<Rightarrow> VNil | Some v \<Rightarrow> v)"
    by (rule ext) (simp add: index_map_def)
  then show ?thesis using MapValues_Some [of buf M K] by simp
qed

subsection \<open>The emptiness classifier\<close>

text \<open>
  C7. \<open>isEmpty\<close> agrees with the reference emptiness definition on every value, and it
  is \<open>False\<close> on every struct other than \<^verbatim>\<open>time.Time\<close>. It is a total function into
  \<open>bool\<close>: no case of the \<^verbatim>\<open>switch\<close> reaches a reflection call that can panic.
\<close>

theorem isEmpty_reference:
  "isEmpty v = spec_isEmpty v \<and> isEmpty (VStruct fs) = False"
  by (cases v) (auto simp: spec_isEmpty_def)

subsection \<open>One pointer step\<close>

text \<open>
  C10. For every record value \<open>r\<close> and every Mapper, \<open>ToMap\<close> of a pointer to \<open>r\<close> is
  \<open>ToMap\<close> of \<open>r\<close> itself, for the method and for the free function.
\<close>

theorem ToMap_through_pointer:
  "Kind r = Struct \<Longrightarrow>
   Mapper_ToMap lu m (VPtr (Some r)) = Mapper_ToMap lu m r \<and>
   ToMap lu (VPtr (Some r)) tag omitempty flatten = ToMap lu r tag omitempty flatten"
  by simp

theorem ToMap_through_pointer_witness:
  "Kind john = Struct \<and>
   Mapper_ToMap Lu_Latin1 \<lparr>Tag = ''json'', Omitempty = True, Flatten = False\<rparr> (VPtr (Some john))
     = Inr [(''name'', VString ''John'')]"
proof -
  have h: "Kind john = Struct" by (simp add: john_def)
  have v: "Mapper_ToMap Lu_Latin1 \<lparr>Tag = ''json'', Omitempty = True, Flatten = False\<rparr> john
             = Inr [(''name'', VString ''John'')]"
    by (simp add: john_def eval_defs)
  show ?thesis
    using h v ToMap_through_pointer
      [OF h, of Lu_Latin1 "\<lparr>Tag = ''json'', Omitempty = True, Flatten = False\<rparr>"]
    by (simp del: Mapper_ToMap.simps)
qed

subsection \<open>tagName and the omit-empty marker\<close>

lemma Cut_comma:
  "Cut s '','' = (if CHR '','' \<in> set s then Some (first_token s, the (second_token s)) else None)"
  by (induction s) (auto simp: first_token_def second_token_def)

lemma SplitN_tagsep_2:
  "SplitN s tagsep 2 = (case second_token s of None \<Rightarrow> [s] | Some t1 \<Rightarrow> [first_token s, t1])"
  by (simp add: SplitN.simps [of s] SplitN.simps [of _ _ "Suc 0"] tagsep_def Cut_comma
      second_token_def)

lemma first_token_whole: "second_token s = None \<Longrightarrow> first_token s = s"
  by (auto simp: second_token_def first_token_def split: if_splits)

text \<open>
  C6. For a field that passes the visibility check and the dash check, \<open>tagName\<close> skips
  it exactly when \<open>omitempty\<close> is set, the second token (the entire remainder after the
  first comma) is the literal \<^verbatim>\<open>omitempty\<close>, and \<open>isEmpty\<close> holds of the value; in
  every other case it returns the key. So with \<open>omitempty\<close> off nothing is skipped for
  emptiness, and neither is a field annotated \<^verbatim>\<open>name,omitempty,extra\<close>.
\<close>

theorem tagName_omits_on_second_token:
  assumes "isExported lu (Name fld) = Inr True"
    and "first_token (Get (STag fld) tag) \<noteq> ''-''"
  shows "tagName lu fld v tag omitempty =
     (if omitempty \<and> second_token (Get (STag fld) tag) = Some ''omitempty'' \<and> isEmpty v
      then Inl ErrSkip
      else Inr (if first_token (Get (STag fld) tag) = [] then Name fld
                else first_token (Get (STag fld) tag)))"
  using assms
  by (cases "second_token (Get (STag fld) tag)")
     (auto simp: tagName_def SplitN_tagsep_2 EqualFold_dash_def fOmitEmpty_def first_token_whole)

theorem tagName_omits_on_second_token_witness:
  "isExported Lu_Latin1 (Name (json_field ''Name'' ''name,omitempty,extra'')) = Inr True \<and>
   first_token (Get (STag (json_field ''Name'' ''name,omitempty,extra'')) ''json'') \<noteq> ''-'' \<and>
   second_token (Get (STag (json_field ''Name'' ''name,omitempty,extra'')) ''json'')
     = Some ''omitempty,extra'' \<and>
   isEmpty (VString []) \<and>
   tagName Lu_Latin1 (json_field ''Name'' ''name,omitempty,extra'') (VString []) ''json'' True
     = Inr ''name''"
proof -
  have h1: "isExported Lu_Latin1 (Name (json_field ''Name'' ''name,omitempty,extra'')) = Inr True"
    by (simp add: eval_defs)
  have h2: "first_token (Get (STag (json_field ''Name'' ''name,omitempty,extra'')) ''json'') \<noteq> ''-''"
    by (simp add: json_field_def Get_def first_token_def)
  have t1: "second_token (Get (STag (json_field ''Name'' ''name,omitempty,extra'')) ''json'')
              = Some ''omitempty,extra''"
    by (simp add: json_field_def Get_def second_token_def)
  have t0: "first_token (Get (STag (json_field ''Name'' ''name,omitempty,extra'')) ''json'') = ''name''"
    by (simp add: json_field_def Get_def first_token_def)
  show ?thesis
    using h1 h2 t1 tagName_omits_on_second_token [OF h1 h2, of "VString []" True]
    by (simp add: t0)
qed

subsection \<open>Mapper.Tags and Mapper.Values on a Mapper with its own options\<close>

text \<open>
  C1. \<open>Mapper_Tags\<close> passes the Mapper's own \<open>Omitempty\<close> and \<open>Flatten\<close> to \<open>ToMap\<close>. On
  the test record with an empty \<^verbatim>\<open>Age\<close>, a Mapper with \<open>Omitempty\<close> set returns the one
  tag \<^verbatim>\<open>name\<close>, where the sorted keys of the flattened, non-omitting mapping are
  \<^verbatim>\<open>age\<close> and \<^verbatim>\<open>name\<close>.
\<close>

theorem Mapper_Tags_follows_own_options:
  "Mapper_Tags Lu_Latin1 \<lparr>Tag = ''json'', Omitempty = True, Flatten = False\<rparr> john
     = Inr [''name''] \<and>
   map_sum id Keys (ToMap Lu_Latin1 john ''json'' False True) = Inr [''age'', ''name'']"
  by (simp add: Mapper_Tags_def Keys_def john_def eval_defs)

text \<open>
  C2. \<open>Mapper_Values\<close> projects the flattened, non-omitting mapping along the key order
  of \<open>Mapper_Tags\<close>, which follows the Mapper's own options. On the same record a
  Mapper with \<open>Omitempty\<close> set returns one value, where the values of the flattened,
  non-omitting mapping in key order are two, as the function \<open>Values\<close> returns them.
\<close>

theorem Mapper_Values_follows_own_options:
  "Mapper_Values Lu_Latin1 \<lparr>Tag = ''json'', Omitempty = True, Flatten = False\<rparr> john
     = Inr [VString ''John''] \<and>
   Values Lu_Latin1 john ''json'' = Inr [VInt KInt 0, VString ''John'']"
  by (simp add: Mapper_Values_def Values_def Mapper_Tags_def Keys_def MapValues_Some
      index_map_def john_def eval_defs)

subsection \<open>Record-typed fields and the skip rules\<close>

text \<open>
  C4. A record-typed field annotated \<^verbatim>\<open>-\<close> is skipped when it is named and \<open>Flatten\<close> is
  off, the branch that asks \<open>tagName\<close>. With \<open>Flatten\<close> on, the merge branch never asks
  \<open>tagName\<close>, and the nested keys of the field arrive in the result.
\<close>

theorem dash_struct_field_is_flattened:
  "Mapper_ToMap Lu_Latin1 \<lparr>Tag = ''json'', Omitempty = False, Flatten = True\<rparr>
     (VStruct [(json_field ''Address'' ''-'', address)])
   = Inr [(''street'', VString ''123 Main St''), (''city'', VString ''Anytown''),
          (''zip'', VInt KInt 12345)] \<and>
   Mapper_ToMap Lu_Latin1 \<lparr>Tag = ''json'', Omitempty = False, Flatten = False\<rparr>
     (VStruct [(json_field ''Address'' ''-'', address)]) = Inr []"
  by (simp add: address_def eval_defs)

text \<open>
  C5. An unexported field of a non-struct kind is skipped by \<open>tagName\<close>. For an
  unexported field of struct kind the loop calls \<^verbatim>\<open>Interface()\<close> on the field before any
  visibility check, and that call panics.
\<close>

theorem unexported_struct_field_panics:
  "Mapper_ToMap Lu_Latin1 \<lparr>Tag = ''json'', Omitempty = False, Flatten = False\<rparr>
     (VStruct [(json_field ''address'' ''address'', address)])
   = Inl (Panic ''reflect.Value.Interface: cannot return value obtained from unexported field or method'') \<and>
   Mapper_ToMap Lu_Latin1 \<lparr>Tag = ''json'', Omitempty = False, Flatten = False\<rparr>
     (VStruct [(json_field ''name'' ''name'', VString ''John'')]) = Inr []"
  by (simp add: address_def eval_defs)

subsection \<open>Anonymous fields and the flatten flag\<close>

lemma Interface_of_struct:
  "Interface_of lu field (VStruct sub) =
     (if IsExported lu field
      then Inr (VStruct sub)
      else Inl (Panic ''reflect.Value.Interface: cannot return value obtained from unexported field or method''))"
  by (simp add: Interface_of_def)

lemma IsExported_Anonymous [simp]:
  "IsExported lu (field\<lparr>Anonymous := b\<rparr>) = IsExported lu field"
  by (simp add: IsExported_def)

text \<open>
  The nested conversion receives the flag of the parent. The flag makes no difference
  on a record that has no named record-typed field at any depth.
\<close>

lemma ToMap_fields_flatten_irrelevant:
  "only_anonymous_nesting fs \<Longrightarrow>
   ToMap_fields lu \<lparr>Tag = t, Omitempty = oe, Flatten = b1\<rparr> fs out =
   ToMap_fields lu \<lparr>Tag = t, Omitempty = oe, Flatten = b2\<rparr> fs out"
proof (induction fs arbitrary: out rule: only_anonymous_nesting.induct)
  case 1
  then show ?case by simp
next
  case (2 field fv rest)
  show ?case
  proof (cases fv)
    case (VStruct sub)
    with "2.prems" have an: "Anonymous field" and s: "only_anonymous_nesting sub"
      and r: "only_anonymous_nesting rest" by simp_all
    have nested: "ToMap_fields lu \<lparr>Tag = t, Omitempty = oe, Flatten = b1\<rparr> sub [] =
                  ToMap_fields lu \<lparr>Tag = t, Omitempty = oe, Flatten = b2\<rparr> sub []"
      using "2.IH"(1) [OF VStruct s] .
    show ?thesis
      using an nested "2.IH"(2) [OF r]
      by (simp add: VStruct Interface_of_struct split: sum.splits)
  next
  qed (use "2.prems" "2.IH"(2) in \<open>simp_all split: sum.splits error.splits\<close>)
qed

text \<open>
  C3. Take an anonymous record-typed field whose record has only anonymous
  record-typed fields at every depth. Whatever map the walk has built so far, the walk
  with \<open>Flatten\<close> off adds for this field what the walk with \<open>Flatten\<close> on adds for the
  same field declared with a name.
\<close>

theorem anonymous_field_flattening:
  assumes "only_anonymous_nesting sub"
  shows "ToMap_fields lu (m\<lparr>Flatten := False\<rparr>) [(field\<lparr>Anonymous := True\<rparr>, VStruct sub)] out =
         ToMap_fields lu (m\<lparr>Flatten := True\<rparr>) [(field\<lparr>Anonymous := False\<rparr>, VStruct sub)] out"
proof -
  have "ToMap_fields lu \<lparr>Tag = Tag m, Omitempty = Omitempty m, Flatten = False\<rparr> sub [] =
        ToMap_fields lu \<lparr>Tag = Tag m, Omitempty = Omitempty m, Flatten = True\<rparr> sub []"
    using assms by (rule ToMap_fields_flatten_irrelevant)
  then show ?thesis
    by (simp add: Interface_of_struct split: sum.splits)
qed

theorem anonymous_field_flattening_witness:
  "only_anonymous_nesting employee_fields \<and>
   ToMap_fields Lu_Latin1 \<lparr>Tag = ''json'', Omitempty = False, Flatten = True\<rparr>
     [(\<lparr>Name = ''Employee'', STag = [], Anonymous = False\<rparr>, VStruct employee_fields)] []
   = Inr [(''name'', VString ''John''), (''age'', VInt KInt 0), (''position'', VString ''Manager'')]"
proof -
  have h: "only_anonymous_nesting employee_fields"
    by (simp add: employee_fields_def embedded_def json_field_def john_def)
  have v: "ToMap_fields Lu_Latin1 \<lparr>Tag = ''json'', Omitempty = False, Flatten = False\<rparr>
             [(\<lparr>Name = ''Employee'', STag = [], Anonymous = True\<rparr>, VStruct employee_fields)] []
           = Inr [(''name'', VString ''John''), (''age'', VInt KInt 0),
                  (''position'', VString ''Manager'')]"
    by (simp add: employee_fields_def embedded_def john_def eval_defs)
  show ?thesis
    using h v anonymous_field_flattening
      [OF h, of Lu_Latin1 "\<lparr>Tag = ''json'', Omitempty = False, Flatten = False\<rparr>"
         "\<lparr>Name = ''Employee'', STag = [], Anonymous = True\<rparr>" "[]"]
    by (simp del: ToMap_fields.simps)
qed

text \<open>
  With a named record-typed field inside the anonymous one the two walks differ: with
  \<open>Flatten\<close> off the inner record stays a sub-mapping under its key, with \<open>Flatten\<close> on
  its keys are merged.
\<close>

theorem anonymous_field_flattening_counterexample:
  "ToMap_fields Lu_Latin1 \<lparr>Tag = ''json'', Omitempty = False, Flatten = False\<rparr>
     [(\<lparr>Name = ''Person'', STag = [], Anonymous = True\<rparr>, person)] []
   = Inr [(''name'', VString ''Bob''),
          (''address'', VMap [(''street'', VString ''123 Main St''), (''city'', VString ''Anytown''),
                             (''zip'', VInt KInt 12345)])] \<and>
   ToMap_fields Lu_Latin1 \<lparr>Tag = ''json'', Omitempty = False, Flatten = True\<rparr>
     [(\<lparr>Name = ''Person'', STag = [], Anonymous = False\<rparr>, person)] []
   = Inr [(''name'', VString ''Bob''), (''street'', VString ''123 Main St''),
          (''city'', VString ''Anytown''), (''zip'', VInt KInt 12345)]"
  by (simp add: person_def address_def eval_defs)

subsection \<open>The visibility check and the replacement rune\<close>

lemma mod_window:
  fixes n :: nat
  assumes "m * q \<le> n" "n < m * Suc q"
  shows "n mod m = n - m * q"
proof -
  have "n div m = q" using assms by (rule div_nat_eqI)
  then show ?thesis using minus_mult_div_eq_mod [of n m] by simp
qed

lemma m16: "224 \<le> (s0::nat) \<Longrightarrow> s0 \<le> 239 \<Longrightarrow> s0 mod 16 = s0 - 224"
  using mod_window [of 16 14 s0] by simp

lemma m64: "128 \<le> (s1::nat) \<Longrightarrow> s1 \<le> 191 \<Longrightarrow> s1 mod 64 = s1 - 128"
  using mod_window [of 64 2 s1] by simp

lemma m8: "240 \<le> (s0::nat) \<Longrightarrow> s0 \<le> 247 \<Longrightarrow> s0 mod 8 = s0 - 240"
  using mod_window [of 8 30 s0] by simp

lemma two_byte_rune: "(s0::nat) mod 32 * 64 + s1 mod 64 < 65533"
proof -
  have "s0 mod 32 < 32" "s1 mod 64 < 64" by simp_all
  then show ?thesis by linarith
qed

lemma three_byte_rune:
  assumes "0xE0 \<le> (s0::nat)" "s0 \<le> 0xEF" "0x80 \<le> (s1::nat)" "s1 \<le> 0xBF"
    "0x80 \<le> (s2::nat)" "s2 \<le> 0xBF"
  shows "s0 mod 16 * 4096 + s1 mod 64 * 64 + s2 mod 64 = 65533
         \<longleftrightarrow> s0 = 0xEF \<and> s1 = 0xBF \<and> s2 = 0xBD"
proof -
  have a: "s0 mod 16 = s0 - 224" using assms by (simp add: m16)
  have b: "s1 mod 64 = s1 - 128" using assms by (simp add: m64)
  have c: "s2 mod 64 = s2 - 128" using assms by (simp add: m64)
  show ?thesis
  proof
    assume eq: "s0 mod 16 * 4096 + s1 mod 64 * 64 + s2 mod 64 = 65533"
    have e: "(s0 - 224) * 4096 + (s1 - 128) * 64 + (s2 - 128) = 65533"
      using eq unfolding a b c .
    have s0: "s0 = 239"
    proof (rule ccontr)
      assume "s0 \<noteq> 239"
      then have "s0 \<le> 238" using assms by linarith
      then show False using e assms by linarith
    qed
    have s1: "s1 = 191"
    proof (rule ccontr)
      assume "s1 \<noteq> 191"
      then have "s1 \<le> 190" using assms by linarith
      then show False using e s0 assms by linarith
    qed
    have s2: "s2 = 189" using e s0 s1 by simp
    show "s0 = 0xEF \<and> s1 = 0xBF \<and> s2 = 0xBD" using s0 s1 s2 by simp
  next
    assume "s0 = 0xEF \<and> s1 = 0xBF \<and> s2 = 0xBD"
    then show "s0 mod 16 * 4096 + s1 mod 64 * 64 + s2 mod 64 = 65533" by simp
  qed
qed

lemma four_byte_rune:
  assumes "0xF0 \<le> (s0::nat)" "s0 \<le> 0xF4" "accept_lo s0 \<le> (s1::nat)" "s1 \<le> 0xBF"
  shows "s0 mod 8 * 262144 + s1 mod 64 * 4096 + s2 mod 64 * 64 + s3 mod 64 \<noteq> 65533"
proof (cases "s0 = 0xF0")
  case True
  then have lo: "0x90 \<le> s1" using assms by (simp add: accept_lo_def)
  then have "s1 mod 64 = s1 - 128" using assms by (simp add: m64)
  then have "16 \<le> s1 mod 64" using lo by linarith
  then have "65536 \<le> s1 mod 64 * 4096" by linarith
  then show ?thesis by linarith
next
  case False
  have "s0 mod 8 = s0 - 240" using assms by (simp add: m8)
  then have "1 \<le> s0 mod 8" using False assms by linarith
  then have "262144 \<le> s0 mod 8 * 262144" by linarith
  then show ?thesis by linarith
qed

lemma seq_size_cases:
  "seq_size s0 = 0 \<and> s0 \<noteq> 0xEF \<or> seq_size s0 = 1 \<and> s0 < 0x80
   \<or> seq_size s0 = 2 \<and> 0xC2 \<le> s0 \<and> s0 \<le> 0xDF
   \<or> seq_size s0 = 3 \<and> 0xE0 \<le> s0 \<and> s0 \<le> 0xEF
   \<or> seq_size s0 = 4 \<and> 0xF0 \<le> s0 \<and> s0 \<le> 0xF4"
  unfolding seq_size_def by (cases "s0 = 0xEF") auto

text \<open>
  The decoder yields \<open>RuneError\<close> in three situations only: its two failure results,
  and the well-formed three bytes of the rune U+FFFD itself.
\<close>

lemma decode_bytes_RuneError:
  "fst (decode_bytes bs) = RuneError \<longleftrightarrow>
     decode_bytes bs = (RuneError, 0) \<or> decode_bytes bs = (RuneError, 1)
     \<or> take 3 bs = [0xEF, 0xBF, 0xBD]"
proof (cases bs)
  case Nil
  then show ?thesis by (simp add: decode_bytes_def)
next
  case (Cons s0 r1)
  note c0 = Cons
  consider (bad) "seq_size s0 = 0" "s0 \<noteq> 0xEF" | (one) "seq_size s0 = 1" "s0 < 0x80"
    | (two) "seq_size s0 = 2" "0xC2 \<le> s0" "s0 \<le> 0xDF"
    | (three) "seq_size s0 = 3" "0xE0 \<le> s0" "s0 \<le> 0xEF"
    | (four) "seq_size s0 = 4" "0xF0 \<le> s0" "s0 \<le> 0xF4"
    using seq_size_cases [of s0] by argo
  then show ?thesis
  proof cases
    case bad
    with c0 show ?thesis by (simp add: decode_bytes_def)
  next
    case one
    then show ?thesis using c0 by (simp add: decode_bytes_def RuneError_def)
  next
    case two
    show ?thesis
    proof (cases r1)
      case Nil
      with two c0 show ?thesis by (simp add: decode_bytes_def)
    next
      case (Cons s1 r2)
      with two c0 two_byte_rune [of s0 s1] show ?thesis
        by (simp add: decode_bytes_def RuneError_def)
    qed
  next
    case three
    show ?thesis
    proof (cases "length bs < 3")
      case True
      then have "take 3 bs \<noteq> [0xEF, 0xBF, 0xBD]" by auto
      with True three c0 show ?thesis by (simp add: decode_bytes_def)
    next
      case False
      then obtain s1 s2 r3 where bs: "bs = s0 # s1 # s2 # r3"
        using c0 by (cases r1; cases "tl r1") auto
      show ?thesis
      proof (cases "s1 < accept_lo s0 \<or> accept_hi s0 < s1 \<or> s2 < 0x80 \<or> 0xBF < s2")
        case True
        then have "\<not> (s0 = 0xEF \<and> s1 = 0xBF \<and> s2 = 0xBD)"
          by (auto simp: accept_lo_def accept_hi_def)
        with True three bs show ?thesis
          by (auto simp: decode_bytes_def)
      next
        case F: False
        then have b: "0x80 \<le> s1" "s1 \<le> 0xBF" "0x80 \<le> s2" "s2 \<le> 0xBF"
          by (auto simp: accept_lo_def accept_hi_def split: if_splits)
        from F three bs three_byte_rune [OF three(2,3) b] show ?thesis
          by (simp add: decode_bytes_def RuneError_def)
      qed
    qed
  next
    case four
    then have ne: "s0 \<noteq> 0xEF" by simp
    show ?thesis
    proof (cases "length bs < 4")
      case True
      with four c0 ne show ?thesis by (simp add: decode_bytes_def RuneError_def)
    next
      case False
      then obtain s1 s2 s3 r4 where bs: "bs = s0 # s1 # s2 # s3 # r4"
        using c0 by (cases r1; cases "tl r1"; cases "tl (tl r1)") auto
      show ?thesis
      proof (cases "s1 < accept_lo s0 \<or> accept_hi s0 < s1 \<or> s2 < 0x80 \<or> 0xBF < s2
                    \<or> s3 < 0x80 \<or> 0xBF < s3")
        case True
        with four bs ne show ?thesis by (auto simp: decode_bytes_def)
      next
        case F: False
        then have "accept_lo s0 \<le> s1" "s1 \<le> 0xBF"
          by (auto simp: accept_hi_def split: if_splits)
        from four_byte_rune [OF four(2,3) this, of s2 s3] four bs ne F show ?thesis
          by (simp add: decode_bytes_def RuneError_def)
      qed
    qed
  qed
qed

text \<open>
  C9. \<open>isExported\<close> panics exactly when the decoder yields the rune U+FFFD
  for the name: when the first character cannot be decoded (the name is empty or
  starts with ill-formed UTF-8), and when the name starts with the well-formed bytes
  EF BF BD of U+FFFD itself. For every other name it returns whether the first rune is
  in \<^verbatim>\<open>Lu\<close>.
\<close>

theorem isExported_aborts_on_replacement_rune:
  "isExported lu s =
     (if decode_fails s \<or> take 3 (map of_char s) = [0xEF, 0xBF, 0xBD :: nat]
      then Inl (Panic (''isExported: unsupported field: '' @ s))
      else Inr (lu (fst (DecodeRuneInString s))))"
  using decode_bytes_RuneError [of "map of_char s"]
  by (simp add: isExported_def decode_fails_def DecodeRuneInString_def)

text \<open>
  The name made of the three bytes EF BF BD decodes, with width 3, and \<open>isExported\<close>
  panics on it.
\<close>

theorem isExported_replacement_rune_counterexample:
  "\<not> decode_fails [CHR 0xEF, CHR 0xBF, CHR 0xBD] \<and>
   DecodeRuneInString [CHR 0xEF, CHR 0xBF, CHR 0xBD] = (0xFFFD, 3) \<and>
   isExported Lu_Latin1 [CHR 0xEF, CHR 0xBF, CHR 0xBD]
     = Inl (Panic (''isExported: unsupported field: '' @ [CHR 0xEF, CHR 0xBF, CHR 0xBD]))"
  by (simp add: decode_fails_def isExported_def DecodeRuneInString_def decode_bytes_def
      seq_size_def accept_lo_def accept_hi_def RuneError_def)

end
